theory Spec2Isabelle
  imports Main "HOL-Library.Word" "HOL-Library.Signed_Division" "HOL-Library.Sublist"
begin

section \<open>Overview\<close>

text \<open>
  The package \<^verbatim>\<open>log\<close> is a process-wide logger. Its sources hold several iterations
  of the same file, and three of them are embedded here:
  \<^item> \<^verbatim>\<open>log.go\<close>, the queued logger: entry points send events on a buffered channel
    and \<^verbatim>\<open>logRoutine\<close> writes them. Its functions keep their names (\<open>Check\<close>, \<open>Fail\<close>,
    \<open>Assert\<close>, \<open>Info\<close>, \<open>StartLog\<close>, \<open>CloseLog\<close>, ...); \<open>writeLog_q\<close> and
    \<open>writeConsole_q\<close> are its \<^verbatim>\<open>writeLog\<close> and \<^verbatim>\<open>writeConsole\<close>.
  \<^item> \<^verbatim>\<open>unnamed/part_002\<close>, lines 1 to 425, the synchronous logger with the reflective
    renderer: \<open>writeField\<close>, \<open>writeUnknownField\<close>, \<open>getStructName\<close>, \<open>writeLog\<close>,
    \<open>Trace\<close>.
  \<^item> \<^verbatim>\<open>unnamed/part_002\<close>, lines 427 to 860, the logger with an exit channel; its
    functions carry the suffix \<open>_ex\<close>.
  Concurrency is embedded as an order of whole calls on one state: a call of an entry
  point, a call of \<^verbatim>\<open>CloseLog\<close>, or one turn of the loop of \<^verbatim>\<open>logRoutine\<close>.
\<close>

section \<open>Text formatting used by the logger\<close>

text \<open>
  The logger formats numbers with the verbs \<^verbatim>\<open>%d\<close>, \<^verbatim>\<open>%02d\<close>, \<^verbatim>\<open>%04d\<close> and \<^verbatim>\<open>%#x\<close> of Go's
  \<^verbatim>\<open>fmt\<close> package. They are written out here on \<open>nat\<close> and \<open>int\<close>.
\<close>

definition digit :: "nat \<Rightarrow> char" where
  "digit d = ''0123456789abcdef'' ! d"

fun showNat :: "nat \<Rightarrow> string" where
  "showNat n = (if n < 10 then [digit n] else showNat (n div 10) @ [digit (n mod 10)])"

declare showNat.simps [simp del]

fun showHex :: "nat \<Rightarrow> string" where
  "showHex n = (if n < 16 then [digit n] else showHex (n div 16) @ [digit (n mod 16)])"

declare showHex.simps [simp del]

text \<open>\<^verbatim>\<open>%d\<close> of a signed integer.\<close>

definition showInt :: "int \<Rightarrow> string" where
  "showInt i = (if i < 0 then ''-'' @ showNat (nat (- i)) else showNat (nat i))"

text \<open>\<^verbatim>\<open>%02d\<close> and \<^verbatim>\<open>%04d\<close> of a number that is not negative: zeros on the left up to the width.\<close>

definition padZero :: "nat \<Rightarrow> nat \<Rightarrow> string" where
  "padZero w n = replicate (w - length (showNat n)) CHR ''0'' @ showNat n"

text \<open>\<^verbatim>\<open>%#x\<close> of a number that is not negative.\<close>

definition showHexAlt :: "nat \<Rightarrow> string" where
  "showHexAlt n = ''0x'' @ showHex n"

text \<open>The single quote, as a string.\<close>

abbreviation sq :: string where
  "sq \<equiv> [CHR 0x27]"

section \<open>The reflective field renderer (unnamed/part_002, lines 1 to 425)\<close>

text \<open>
  A payload value is an \<^verbatim>\<open>interface{}\<close>. The constructors follow the cases the renderer
  tells apart:
  \<^item> \<open>Nil\<close> is the nil interface and \<open>NilPtr\<close> a nil pointer of some pointer type;
  \<^item> \<open>GoString\<close>, \<open>GoInt\<close>, \<open>Uint8\<close>, \<open>Uint16\<close>, \<open>Uint32\<close>, \<open>Hex32\<close>, \<open>GoBool\<close>,
    \<open>Duration\<close> (nanoseconds, an \<^verbatim>\<open>int64\<close>) are values of exactly these types;
    \<open>GoTime\<close> and \<open>UUID\<close> carry the text that \<^verbatim>\<open>Format(time.RFC1123)\<close> and \<^verbatim>\<open>String()\<close>
    of their libraries return;
  \<^item> \<open>Struct name err fields\<close> is a struct value of any other type, \<open>Ptr err v\<close> a pointer
    that is not nil, \<open>Other err\<close> a value of any other kind (slice, map, float, named
    scalar, ...). Their \<open>err\<close> is \<open>Some m\<close> when the dynamic type implements
    \<^verbatim>\<open>error\<close>, with \<open>m\<close> what \<^verbatim>\<open>Error()\<close> returns.
  A field has its name, whether it is exported, the value of its \<^verbatim>\<open>log\<close> tag if the
  tag is there, and its value.
\<close>

datatype gval =
    Nil
  | NilPtr
  | GoString string
  | GoTime string
  | GoInt "64 word"
  | Uint8 "8 word"
  | Uint32 "32 word"
  | Hex32 "32 word"
  | Uint16 "16 word"
  | UUID string
  | GoBool bool
  | Duration "64 word"
  | Struct string "string option" "field list"
  | Ptr "string option" gval
  | Other "string option"
and field = Field string bool "string option" gval

text \<open>\<^verbatim>\<open>time.Duration\<close>: both methods divide the \<^verbatim>\<open>int64\<close> count of nanoseconds, and Go's
  division truncates towards zero.\<close>

definition Microseconds :: "64 word \<Rightarrow> int" where
  "Microseconds d = sint d sdiv 1000"

definition Milliseconds :: "64 word \<Rightarrow> int" where
  "Milliseconds d = sint d sdiv 1000000"

text \<open>The dynamic type implements \<^verbatim>\<open>error\<close>: the first case of the type switch.\<close>

fun asError :: "gval \<Rightarrow> string option" where
  "asError (Struct n e fs) = e"
| "asError (Ptr e v) = e"
| "asError (Other e) = e"
| "asError _ = None"

text \<open>\<^verbatim>\<open>isInterfaceNil\<close>: the nil interface, or a pointer that is nil.\<close>

fun isInterfaceNil :: "gval \<Rightarrow> bool" where
  "isInterfaceNil Nil = True"
| "isInterfaceNil NilPtr = True"
| "isInterfaceNil _ = False"

text \<open>
  \<^verbatim>\<open>reflectDeref\<close> goes through one pointer. Of the reflected value the renderer uses
  only its fields and whether they can be set, which needs an addressable value: the
  element of a pointer is addressable, a value taken from an interface is not. The
  second component is that flag. Callers test \<open>isInterfaceNil\<close> first; on \<open>Nil\<close> the
  source would panic and on \<open>NilPtr\<close> the reflected value is invalid, so both are
  \<open>None\<close>.
\<close>

fun reflectDeref :: "gval \<Rightarrow> (gval \<times> bool) option" where
  "reflectDeref Nil = None"
| "reflectDeref NilPtr = None"
| "reflectDeref (Ptr e v) = Some (v, True)"
| "reflectDeref v = Some (v, False)"

text \<open>
  \<^verbatim>\<open>t.Kind() == reflect.Struct\<close>, with \<^verbatim>\<open>t.Name()\<close> and the fields. \<^verbatim>\<open>time.Time\<close> is a
  struct of three unexported fields; no caller reads the value of an unexported field.
\<close>

fun structOf :: "gval \<Rightarrow> (string \<times> field list) option" where
  "structOf (Struct n e fs) = Some (n, fs)"
| "structOf (GoTime s) =
     Some (''Time'', [Field ''wall'' False None Nil, Field ''ext'' False None Nil,
                      Field ''loc'' False None Nil])"
| "structOf _ = None"

text \<open>
  A weight for the termination of the renderer: a value weighs more than the fields
  that \<open>structOf\<close> gives for it, also through one pointer.
\<close>

primrec weight :: "gval \<Rightarrow> nat" and fweight :: "field \<Rightarrow> nat" where
  "weight Nil = 0"
| "weight NilPtr = 0"
| "weight (GoString s) = 0"
| "weight (GoTime s) = 4"
| "weight (GoInt i) = 0"
| "weight (Uint8 i) = 0"
| "weight (Uint32 i) = 0"
| "weight (Hex32 i) = 0"
| "weight (Uint16 i) = 0"
| "weight (UUID s) = 0"
| "weight (GoBool b) = 0"
| "weight (Duration d) = 0"
| "weight (Struct n e fs) = Suc (sum_list (map fweight fs))"
| "weight (Ptr e v) = Suc (weight v)"
| "weight (Other e) = 0"
| "fweight (Field fname exported tag v) = Suc (weight v)"

text \<open>
  \<^verbatim>\<open>writeField\<close>, \<^verbatim>\<open>writeUnknownField\<close> and the loop over the fields of a struct. Each
  returns the text it writes to \<^verbatim>\<open>w\<close>. \<open>pv\<close> is \<^verbatim>\<open>fmt\<close>'s rendering with \<^verbatim>\<open>%+v\<close>, which is not
  code of this package. The loop carries \<^verbatim>\<open>t.NumField()\<close> as \<open>n\<close> and the index \<open>i\<close>;
  \<^verbatim>\<open>continue\<close> on the tag \<^verbatim>\<open>hide\<close> skips the rest of the body, the delimiter too.
\<close>

function writeField :: "(gval \<Rightarrow> string) \<Rightarrow> gval \<Rightarrow> string \<Rightarrow> string"
  and writeUnknownField :: "(gval \<Rightarrow> string) \<Rightarrow> gval \<Rightarrow> string \<Rightarrow> string"
  and writeStructFields :: "(gval \<Rightarrow> string) \<Rightarrow> bool \<Rightarrow> nat \<Rightarrow> nat \<Rightarrow> field list \<Rightarrow> string \<Rightarrow> string"
where
  "writeField pv v delim =
     (if isInterfaceNil v then ''<nil>''
      else case asError v of
        Some m \<Rightarrow> sq @ ''error: '' @ m @ sq
      | None \<Rightarrow>
         (case v of
            GoString s \<Rightarrow> (if CHR '' '' \<in> set s then sq @ s @ sq else s)
          | GoTime s \<Rightarrow> s
          | GoInt i \<Rightarrow> showInt (sint i)
          | Uint8 i \<Rightarrow> showNat (unat i)
          | Uint32 i \<Rightarrow> showNat (unat i)
          | Hex32 i \<Rightarrow> showHexAlt (unat i)
          | Uint16 i \<Rightarrow> showNat (unat i)
          | UUID s \<Rightarrow> s
          | GoBool b \<Rightarrow> (if b then ''true'' else ''false'')
          | Duration d \<Rightarrow> showInt (Microseconds d) @ ''ms''
          | _ \<Rightarrow> writeUnknownField pv v delim))"
| "writeUnknownField pv v delim =
     (if \<not> isInterfaceNil v then
        (case reflectDeref v of
           None \<Rightarrow> []
         | Some (t, addressable) \<Rightarrow>
            (case structOf t of
               Some (n, fs) \<Rightarrow> writeStructFields pv addressable (length fs) 0 fs delim
             | None \<Rightarrow> pv v))
      else ''<nil>'')"
| "writeStructFields pv addressable n i [] delim = []"
| "writeStructFields pv addressable n i (Field fname exported tag fv # fs) delim =
     (if addressable \<and> exported then
        (case tag of
           Some name \<Rightarrow>
             (if name = ''hide'' then []
              else (if name \<noteq> [] then name @ '':'' else [])
                   @ writeField pv fv delim @ (if i < n - 1 then delim else []))
         | None \<Rightarrow> fname @ '':'' @ writeField pv fv delim @ (if i < n - 1 then delim else []))
      else [])
     @ writeStructFields pv addressable n (i + 1) fs delim"
  by pat_completeness auto

termination
  by (relation "measure (\<lambda>x. case x of
          Inl (pv, v, delim) \<Rightarrow> 2 * weight v + 1
        | Inr (Inl (pv, v, delim)) \<Rightarrow> 2 * weight v
        | Inr (Inr (pv, a, n, i, fs, delim)) \<Rightarrow> 2 * sum_list (map fweight fs))")
     (auto elim!: reflectDeref.elims structOf.elims)


text \<open>
  The same three functions in lines 427 to 860 of the same source, which has no case
  for \<^verbatim>\<open>time.Time\<close> and \<^verbatim>\<open>uuid.UUID\<close>, takes the duration in milliseconds, and
  writes every tag it finds as the name.
\<close>

function writeField_ex :: "(gval \<Rightarrow> string) \<Rightarrow> gval \<Rightarrow> string \<Rightarrow> string"
  and writeUnknownField_ex :: "(gval \<Rightarrow> string) \<Rightarrow> gval \<Rightarrow> string \<Rightarrow> string"
  and writeStructFields_ex :: "(gval \<Rightarrow> string) \<Rightarrow> bool \<Rightarrow> nat \<Rightarrow> nat \<Rightarrow> field list \<Rightarrow> string \<Rightarrow> string"
where
  "writeField_ex pv v delim =
     (if isInterfaceNil v then ''<nil>''
      else case asError v of
        Some m \<Rightarrow> sq @ ''error: '' @ m @ sq
      | None \<Rightarrow>
         (case v of
            GoString s \<Rightarrow> (if CHR '' '' \<in> set s then sq @ s @ sq else s)
          | GoInt i \<Rightarrow> showInt (sint i)
          | Uint8 i \<Rightarrow> showNat (unat i)
          | Uint32 i \<Rightarrow> showNat (unat i)
          | Hex32 i \<Rightarrow> showHexAlt (unat i)
          | Uint16 i \<Rightarrow> showNat (unat i)
          | GoBool b \<Rightarrow> (if b then ''true'' else ''false'')
          | Duration d \<Rightarrow> showInt (Milliseconds d) @ ''ms''
          | _ \<Rightarrow> writeUnknownField_ex pv v delim))"
| "writeUnknownField_ex pv v delim =
     (if \<not> isInterfaceNil v then
        (case reflectDeref v of
           None \<Rightarrow> []
         | Some (t, addressable) \<Rightarrow>
            (case structOf t of
               Some (n, fs) \<Rightarrow> writeStructFields_ex pv addressable (length fs) 0 fs delim
             | None \<Rightarrow> pv v))
      else ''<nil>'')"
| "writeStructFields_ex pv addressable n i [] delim = []"
| "writeStructFields_ex pv addressable n i (Field fname exported tag fv # fs) delim =
     (if addressable \<and> exported then
        (case tag of Some name \<Rightarrow> name @ '':'' | None \<Rightarrow> fname @ '':'')
        @ writeField_ex pv fv delim @ (if i < n - 1 then delim else [])
      else [])
     @ writeStructFields_ex pv addressable n (i + 1) fs delim"
  by pat_completeness auto

termination
  by (relation "measure (\<lambda>x. case x of
          Inl (pv, v, delim) \<Rightarrow> 2 * weight v + 1
        | Inr (Inl (pv, v, delim)) \<Rightarrow> 2 * weight v
        | Inr (Inr (pv, a, n, i, fs, delim)) \<Rightarrow> 2 * sum_list (map fweight fs))")
     (auto elim!: reflectDeref.elims structOf.elims)

text \<open>\<^verbatim>\<open>getStructName\<close>, the same in both files.\<close>

definition getStructName :: "gval \<Rightarrow> string" where
  "getStructName v =
     (if \<not> isInterfaceNil v then
        (case reflectDeref v of
           None \<Rightarrow> ''<unknown>''
         | Some (t, addressable) \<Rightarrow>
            (case structOf t of Some (n, fs) \<Rightarrow> n | None \<Rightarrow> ''<unknown>''))
      else ''<unknown>'')"

text \<open>A value is a struct, directly or behind one pointer, read off the value itself.\<close>

fun structAfterDeref :: "gval \<Rightarrow> bool" where
  "structAfterDeref (Struct n e fs) = True"
| "structAfterDeref (GoTime s) = True"
| "structAfterDeref (Ptr e (Struct n e' fs)) = True"
| "structAfterDeref (Ptr e (GoTime s)) = True"
| "structAfterDeref _ = False"

section \<open>The synchronous logger (unnamed/part_002, lines 1 to 425)\<close>

text \<open>
  What an entry point reads from its surroundings: the clock (\<^verbatim>\<open>time.Now()\<close>), the call
  site that \<^verbatim>\<open>getCaller(2)\<close> resolves, the text of \<^verbatim>\<open>Stack(false)\<close> and the process id.
\<close>

record gotime =
  Month :: nat
  Day :: nat
  Year :: nat
  Hour :: nat
  Minute :: nat
  Second :: nat

record caller =
  line :: nat
  function_name :: string
  file_name :: string

record env =
  now :: gotime
  callsite :: caller
  stackText :: string
  pid :: nat

record trace =
  kind :: string
  data :: "gval list"
  stack :: string
  time :: gotime
  call :: caller
  trace :: bool

abbreviation strAssert :: string where "strAssert \<equiv> ''assert''"
abbreviation strError :: string where "strError \<equiv> ''error''"
abbreviation strDebug :: string where "strDebug \<equiv> ''debug''"
abbreviation strInfo :: string where "strInfo \<equiv> ''info''"
abbreviation strWarning :: string where "strWarning \<equiv> ''warning''"

abbreviation tab :: string where "tab \<equiv> [CHR 0x09]"
abbreviation newline :: string where "newline \<equiv> [CHR 0x0A]"

text \<open>What reaches the console: text, and the colour attribute set and unset around it.\<close>

datatype color = FgHiMagenta | FgHiYellow | FgHiCyan | FgHiRed | FgHiGreen

datatype out = ColorSet color | Text string | ColorUnset

text \<open>
  The globals of the package, and the two devices it writes to: \<open>file_open\<close> is
  \<^verbatim>\<open>_file != nil\<close>, \<open>disk\<close> the text written to the log file so far, \<open>console\<close> what
  went to standard output. \<^verbatim>\<open>writeLog\<close> holds \<^verbatim>\<open>_logMux\<close> from its first to its last
  statement, so a call is one step on this state.
\<close>

record mlog =
  file_open :: bool
  consoleInfo :: bool
  consoleTrace :: bool
  disk :: string
  console :: "out list"

text \<open>\<^verbatim>\<open>writeFields\<close>: the payload, a delimiter after every value but the last.\<close>

fun writeFieldsFrom :: "(gval \<Rightarrow> string) \<Rightarrow> nat \<Rightarrow> nat \<Rightarrow> gval list \<Rightarrow> string \<Rightarrow> string" where
  "writeFieldsFrom pv n i [] delim = []"
| "writeFieldsFrom pv n i (v # vs) delim =
     writeField pv v delim @ (if i < n - 1 then delim else [])
     @ writeFieldsFrom pv n (i + 1) vs delim"

definition writeFields :: "(gval \<Rightarrow> string) \<Rightarrow> trace \<Rightarrow> string \<Rightarrow> string" where
  "writeFields pv t delim = writeFieldsFrom pv (length (data t)) 0 (data t) delim"

text \<open>\<^verbatim>\<open>filepath.Split\<close> and \<^verbatim>\<open>filepath.Base\<close> with the separator \<^verbatim>\<open>/\<close>.\<close>

definition Split :: "string \<Rightarrow> string \<times> string" where
  "Split p = (rev (dropWhile (\<lambda>c. c \<noteq> CHR ''/'') (rev p)),
              rev (takeWhile (\<lambda>c. c \<noteq> CHR ''/'') (rev p)))"

definition Base :: "string \<Rightarrow> string" where
  "Base p =
     (if p = [] then ''.''
      else let q = rev (dropWhile (\<lambda>c. c = CHR ''/'') (rev p));
               b = rev (takeWhile (\<lambda>c. c \<noteq> CHR ''/'') (rev q))
           in if b = [] then ''/'' else b)"

definition writeFile :: "(gval \<Rightarrow> string) \<Rightarrow> trace \<Rightarrow> string" where
  "writeFile pv t =
     (let (dir, f) = Split (file_name (call t)) in
      ''['' @ kind t @ '']'' @ tab
      @ padZero 2 (Month (time t)) @ ''/'' @ padZero 2 (Day (time t)) @ ''/''
      @ padZero 4 (Year (time t)) @ tab
      @ padZero 2 (Hour (time t)) @ '':'' @ padZero 2 (Minute (time t)) @ '':''
      @ padZero 2 (Second (time t)) @ tab
      @ Base dir @ ''/'' @ f @ '':'' @ showNat (line (call t)) @ tab
      @ function_name (call t) @ tab
      @ writeFields pv t tab @ newline)"

definition writeConsole :: "(gval \<Rightarrow> string) \<Rightarrow> trace \<Rightarrow> out list" where
  "writeConsole pv t =
     (if kind t = strDebug then [ColorSet FgHiMagenta]
      else if kind t = strWarning then [ColorSet FgHiYellow]
      else if kind t = strInfo then [ColorSet FgHiCyan]
      else if kind t = strError then [ColorSet FgHiRed]
      else if trace t then [ColorSet FgHiGreen]
      else [])
     @ [Text (''['' @ kind t @ ''] '' @ file_name (call t) @ '':'' @ showNat (line (call t))
              @ '' '' @ function_name (call t) @ '': ''
              @ writeFields pv t '' '' @ newline),
        ColorUnset]"

definition writeLog :: "(gval \<Rightarrow> string) \<Rightarrow> trace \<Rightarrow> mlog \<Rightarrow> mlog" where
  "writeLog pv t s =
     (let s1 =
        (if kind t = strDebug \<or> kind t = strAssert \<or> kind t = strError \<or> kind t = strWarning
         then s\<lparr>console := console s @ writeConsole pv t\<rparr>
         else if consoleInfo s \<and> kind t = strInfo
         then s\<lparr>console := console s @ writeConsole pv t\<rparr>
         else if consoleTrace s \<and> trace t
         then s\<lparr>console := console s @ writeConsole pv t\<rparr>
         else s)
      in if file_open s1 then s1\<lparr>disk := disk s1 @ writeFile pv t\<rparr> else s1)"

text \<open>
  \<^verbatim>\<open>Trace\<close>: the event takes the name of the type of the first value as its kind.
  \<^verbatim>\<open>a[0]\<close> on an empty argument list is an index out of range, which panics.
\<close>

datatype panic = IndexOutOfRange

definition traceEvent :: "env \<Rightarrow> gval list \<Rightarrow> trace" where
  "traceEvent e a =
     \<lparr>kind = getStructName (a ! 0), data = a, stack = [], time = now e,
      call = callsite e, trace = True\<rparr>"

definition Trace :: "(gval \<Rightarrow> string) \<Rightarrow> env \<Rightarrow> gval list \<Rightarrow> mlog \<Rightarrow> panic + mlog" where
  "Trace pv e a s =
     (if a = [] then Inl IndexOutOfRange else Inr (writeLog pv (traceEvent e a) s))"

section \<open>The queued logger (log.go)\<close>

text \<open>
  An \<^verbatim>\<open>error\<close> that is not nil is known to the logger by the text of \<^verbatim>\<open>Error()\<close>; the nil
  error is \<open>None\<close>.
\<close>

datatype goerror = GoError (errorText: string)

record Trace =
  Kind :: string
  Build :: string
  Data :: "gval list"
  Stack :: string
  Time :: gotime
  Caller :: caller
  Error :: "goerror option"

text \<open>
  The globals and the devices. \<open>chTrace\<close> is \<^verbatim>\<open>_chTrace\<close>: \<open>None\<close> for nil, else the
  events buffered in the channel, oldest first, and whether the channel is closed.
  \<open>logfile\<close> is \<^verbatim>\<open>_file != nil\<close>, \<open>onLog\<close> is \<^verbatim>\<open>_onLog != nil\<close>. \<open>fileText\<close> is what
  has been written to the log file, \<open>fileCloses\<close> counts the calls of \<^verbatim>\<open>Close()\<close> on
  it, \<open>stdout\<close> is the console and \<open>onLogCalls\<close> the events handed to the callback.
\<close>

record alog =
  build :: string
  chTrace :: "(Trace list \<times> bool) option"
  logfile :: bool
  onLog :: bool
  consoleOn :: bool
  fileText :: string
  fileCloses :: nat
  stdout :: "out list"
  onLogCalls :: "Trace list"

definition initLog :: alog where
  "initLog = \<lparr>build = [], chTrace = None, logfile = False, onLog = False,
              consoleOn = False, fileText = [], fileCloses = 0, stdout = [],
              onLogCalls = []\<rparr>"

text \<open>
  How a call ends: it returns a value, it stays blocked in a channel operation (for
  ever on a nil channel, which no goroutine can serve; until the consumer makes room
  on a full one), or it panics. The state comes with every end that has one.
\<close>

datatype 'a outcome =
    Returns 'a alog
  | BlocksForever
  | BlocksUntilRoom
  | Panics string alog

text \<open>\<^verbatim>\<open>_chTrace <- t\<close> on the channel of capacity 100 that \<^verbatim>\<open>StartLog\<close> makes.\<close>

definition send :: "Trace \<Rightarrow> alog \<Rightarrow> unit outcome" where
  "send t s =
     (case chTrace s of
        None \<Rightarrow> BlocksForever
      | Some (q, closed) \<Rightarrow>
          if closed then Panics ''send on closed channel'' s
          else if length q < 100 then Returns () (s\<lparr>chTrace := Some (q @ [t], closed)\<rparr>)
          else BlocksUntilRoom)"

definition andReturn :: "unit outcome \<Rightarrow> 'a \<Rightarrow> 'a outcome" where
  "andReturn r x =
     (case r of
        Returns u s \<Rightarrow> Returns x s
      | BlocksForever \<Rightarrow> BlocksForever
      | BlocksUntilRoom \<Rightarrow> BlocksUntilRoom
      | Panics m s \<Rightarrow> Panics m s)"

text \<open>The event that \<^verbatim>\<open>Check\<close> and \<^verbatim>\<open>Fail\<close> build, by the same struct literal.\<close>

definition errorEvent :: "env \<Rightarrow> goerror option \<Rightarrow> gval list \<Rightarrow> alog \<Rightarrow> Trace" where
  "errorEvent e err a s =
     \<lparr>Kind = strError, Build = build s, Data = a, Stack = stackText e,
      Time = now e, Caller = callsite e, Error = err\<rparr>"

definition Check :: "env \<Rightarrow> goerror option \<Rightarrow> gval list \<Rightarrow> alog \<Rightarrow> bool outcome" where
  "Check e err a s =
     (if err \<noteq> None then andReturn (send (errorEvent e err a s) s) True
      else Returns False s)"

definition Fail :: "env \<Rightarrow> goerror option \<Rightarrow> gval list \<Rightarrow> alog \<Rightarrow> goerror option outcome" where
  "Fail e err a s =
     (if err \<noteq> None then andReturn (send (errorEvent e err a s) s) err
      else Returns err s)"

definition Warning :: "env \<Rightarrow> gval list \<Rightarrow> alog \<Rightarrow> unit outcome" where
  "Warning e a s =
     send \<lparr>Kind = strWarning, Build = build s, Data = a, Stack = [],
           Time = now e, Caller = callsite e, Error = None\<rparr> s"

definition Info :: "env \<Rightarrow> gval list \<Rightarrow> alog \<Rightarrow> unit outcome" where
  "Info e a s =
     send \<lparr>Kind = strInfo, Build = build s, Data = a, Stack = [],
           Time = now e, Caller = callsite e, Error = None\<rparr> s"

definition Debug :: "env \<Rightarrow> gval list \<Rightarrow> alog \<Rightarrow> unit outcome" where
  "Debug e a s =
     send \<lparr>Kind = strDebug, Build = build s, Data = a, Stack = stackText e,
           Time = now e, Caller = callsite e, Error = None\<rparr> s"

text \<open>
  \<^verbatim>\<open>asString\<close>. \<^verbatim>\<open>sliceAsString\<close> is called here and defined in no file at hand: it is
  the parameter \<open>sas\<close>. \<open>p\<close> is \<^verbatim>\<open>syscall.Getpid()\<close>.
\<close>

definition asString :: "(gval list \<Rightarrow> string) \<Rightarrow> nat \<Rightarrow> Trace \<Rightarrow> string" where
  "asString sas p t =
     (let source = Build t @ ''('' @ showNat p @ ''): '' @ file_name (Caller t) @ ''(''
                   @ showNat (line (Caller t)) @ ''): '' @ function_name (Caller t);
          message = sas (Data t);
          message = (case Error t of
                       Some err \<Rightarrow> errorText err @ '': '' @ message
                     | None \<Rightarrow> message)
      in padZero 2 (Month (Time t)) @ ''/'' @ padZero 2 (Day (Time t)) @ ''/''
         @ padZero 4 (Year (Time t)) @ '' ''
         @ padZero 2 (Hour (Time t)) @ '':'' @ padZero 2 (Minute (Time t)) @ '':''
         @ padZero 2 (Second (Time t)) @ '': ['' @ Kind t @ ''] '' @ source @ '': ''
         @ message)"

definition writeConsole_q :: "(gval list \<Rightarrow> string) \<Rightarrow> nat \<Rightarrow> Trace \<Rightarrow> out list" where
  "writeConsole_q sas p t =
     (if Kind t = strDebug then [ColorSet FgHiMagenta]
      else if Kind t = strWarning then [ColorSet FgHiYellow]
      else if Kind t = strInfo then [ColorSet FgHiCyan]
      else if Kind t = strError then [ColorSet FgHiRed]
      else [])
     @ [Text (asString sas p t), Text newline, ColorUnset]"

definition writeLog_q :: "(gval list \<Rightarrow> string) \<Rightarrow> nat \<Rightarrow> Trace \<Rightarrow> alog \<Rightarrow> alog" where
  "writeLog_q sas p t s =
     (let s1 = (if consoleOn s \<or> Kind t = strDebug
                then s\<lparr>stdout := stdout s @ writeConsole_q sas p t\<rparr> else s);
          s2 = (if logfile s1
                then s1\<lparr>fileText := fileText s1 @ asString sas p t @ newline\<rparr> else s1)
      in if onLog s2 then s2\<lparr>onLogCalls := onLogCalls s2 @ [t]\<rparr> else s2)"

text \<open>
  One turn of the loop of \<^verbatim>\<open>logRoutine\<close>, which reads \<^verbatim>\<open>_chTrace\<close> anew each time. It is
  \<open>None\<close> when the routine does not get an event: it waits on an empty channel, it
  is blocked for ever on the nil channel, or it has left the loop on a closed and
  empty channel.
\<close>

definition logRoutine_step :: "(gval list \<Rightarrow> string) \<Rightarrow> nat \<Rightarrow> alog \<Rightarrow> alog option" where
  "logRoutine_step sas p s =
     (case chTrace s of
        None \<Rightarrow> None
      | Some (q, closed) \<Rightarrow>
          (case q of
             [] \<Rightarrow> None
           | t # q' \<Rightarrow> Some (writeLog_q sas p t (s\<lparr>chTrace := Some (q', closed)\<rparr>))))"

text \<open>
  \<^verbatim>\<open>openLogFile\<close>; \<open>openErr\<close> is the error of \<^verbatim>\<open>os.OpenFile\<close>, which truncates the file
  it opens and returns a nil handle with an error.
\<close>

definition openLogFile :: "string \<Rightarrow> goerror option \<Rightarrow> alog \<Rightarrow> goerror option \<times> alog" where
  "openLogFile name openErr s =
     (if name \<noteq> [] then
        (case openErr of
           None \<Rightarrow> (None, s\<lparr>logfile := True, fileText := []\<rparr>)
         | Some err \<Rightarrow> (Some err, s\<lparr>logfile := False\<rparr>))
      else (None, s))"

definition StartLog ::
  "string \<Rightarrow> string \<Rightarrow> bool \<Rightarrow> bool \<Rightarrow> goerror option \<Rightarrow> alog \<Rightarrow> goerror option \<times> alog" where
  "StartLog name b cons cb openErr s =
     (if chTrace s \<noteq> None then (None, s)
      else case openLogFile name openErr s of
        (Some err, s1) \<Rightarrow> (Some err, s1)
      | (None, s1) \<Rightarrow>
          (None, s1\<lparr>chTrace := Some ([], False), build := b, onLog := cb, consoleOn := cons\<rparr>))"

text \<open>
  \<^verbatim>\<open>CloseLog\<close> closes the channel and drops it, then closes the file and drops it. It
  receives nothing from the channel and waits for nobody.
\<close>

definition CloseLog :: "alog \<Rightarrow> alog" where
  "CloseLog s =
     (let s1 = (if chTrace s \<noteq> None then s\<lparr>chTrace := None\<rparr> else s)
      in if logfile s1 then s1\<lparr>fileCloses := fileCloses s1 + 1, logfile := False\<rparr> else s1)"

definition assertEvent :: "env \<Rightarrow> gval list \<Rightarrow> Trace" where
  "assertEvent e a =
     \<lparr>Kind = strAssert, Build = ''<assert>'', Data = a, Stack = stackText e,
      Time = now e, Caller = callsite e, Error = None\<rparr>"

definition Assert ::
  "(gval list \<Rightarrow> string) \<Rightarrow> env \<Rightarrow> bool \<Rightarrow> gval list \<Rightarrow> alog \<Rightarrow> unit outcome" where
  "Assert sas e condition a s =
     (if \<not> condition then Panics (asString sas (pid e) (assertEvent e a)) (CloseLog s)
      else Returns () s)"

text \<open>
  \<^verbatim>\<open>logRoutine\<close> running on its own, turn after turn, until it gets no event: what the
  routine does with the queue as it stands when no other goroutine comes in between.
\<close>

function logRoutine :: "(gval list \<Rightarrow> string) \<Rightarrow> nat \<Rightarrow> alog \<Rightarrow> alog" where
  "logRoutine sas p s =
     (case logRoutine_step sas p s of
        None \<Rightarrow> s
      | Some s' \<Rightarrow> logRoutine sas p s')"
  by pat_completeness auto

termination
proof (relation "measure (\<lambda>(sas, p, s). case chTrace s of Some (q, c) \<Rightarrow> length q | None \<Rightarrow> 0)")
  show "wf (measure (\<lambda>(sas, p, s). case chTrace s of Some (q, c) \<Rightarrow> length q | None \<Rightarrow> 0))"
    by simp
next
  fix sas :: "gval list \<Rightarrow> string" and p :: nat and s s' :: alog
  assume "logRoutine_step sas p s = Some s'"
  then obtain t q c where q: "chTrace s = Some (t # q, c)"
    and s': "s' = writeLog_q sas p t (s\<lparr>chTrace := Some (q, c)\<rparr>)"
    by (auto simp: logRoutine_step_def split: option.splits list.splits)
  have "chTrace (writeLog_q sas p t x) = chTrace x" for x
    by (simp add: writeLog_q_def Let_def)
  with q s' show "((sas, p, s'), (sas, p, s))
      \<in> measure (\<lambda>(sas, p, s). case chTrace s of Some (q, c) \<Rightarrow> length q | None \<Rightarrow> 0)"
    by simp
qed

declare logRoutine.simps [simp del]



section \<open>The logger with an exit channel (unnamed/part_002, lines 427 to 860)\<close>

text \<open>
  This file has the renderer \<open>writeField_ex\<close> above, its own kinds and a shutdown
  that empties the queue. Its event has no flag.
\<close>

record xtrace =
  xkind :: string
  xdata :: "gval list"
  xstack :: string
  xtime :: gotime
  xcall :: caller

abbreviation strDebug_ex :: string where "strDebug_ex \<equiv> ''dbg''"
abbreviation strError_ex :: string where "strError_ex \<equiv> ''err''"
abbreviation strInfo_ex :: string where "strInfo_ex \<equiv> ''inf''"
abbreviation strWarning_ex :: string where "strWarning_ex \<equiv> ''warn''"

text \<open>\<^verbatim>\<open>_file\<close> here stays set after \<^verbatim>\<open>Close()\<close>: a handle is absent, open or closed. A
  write to a closed handle fails and leaves the file as it is.\<close>

datatype handle = NoFile | FileOpen | FileClosed

text \<open>\<open>chExit\<close> is \<^verbatim>\<open>_chExit != nil\<close>; \<open>routine\<close> holds while \<^verbatim>\<open>logRoutine\<close> is in its loop.\<close>

record xlog =
  chTrace_ex :: "(xtrace list \<times> bool) option"
  chExit :: bool
  file_ex :: handle
  console_ex :: bool
  routine :: bool
  diskText :: string
  closes :: nat
  stdout_ex :: "out list"

definition initLog_ex :: xlog where
  "initLog_ex = \<lparr>chTrace_ex = None, chExit = False, file_ex = NoFile, console_ex = False,
                 routine = False, diskText = [], closes = 0, stdout_ex = []\<rparr>"

fun writeFieldsFrom_ex :: "(gval \<Rightarrow> string) \<Rightarrow> nat \<Rightarrow> nat \<Rightarrow> gval list \<Rightarrow> string \<Rightarrow> string" where
  "writeFieldsFrom_ex pv n i [] delim = []"
| "writeFieldsFrom_ex pv n i (v # vs) delim =
     writeField_ex pv v delim @ (if i < n - 1 then delim else [])
     @ writeFieldsFrom_ex pv n (i + 1) vs delim"

definition writeFields_ex :: "(gval \<Rightarrow> string) \<Rightarrow> xtrace \<Rightarrow> string \<Rightarrow> string" where
  "writeFields_ex pv t delim = writeFieldsFrom_ex pv (length (xdata t)) 0 (xdata t) delim"

definition writeFile_ex :: "(gval \<Rightarrow> string) \<Rightarrow> xtrace \<Rightarrow> string" where
  "writeFile_ex pv t =
     ''['' @ xkind t @ '']'' @ tab
     @ padZero 2 (Month (xtime t)) @ ''/'' @ padZero 2 (Day (xtime t)) @ ''/''
     @ padZero 4 (Year (xtime t)) @ tab
     @ padZero 2 (Hour (xtime t)) @ '':'' @ padZero 2 (Minute (xtime t)) @ '':''
     @ padZero 2 (Second (xtime t)) @ tab
     @ file_name (xcall t) @ '':'' @ showNat (line (xcall t)) @ tab
     @ function_name (xcall t) @ tab
     @ writeFields_ex pv t tab @ newline"

definition writeConsole_ex :: "(gval \<Rightarrow> string) \<Rightarrow> xtrace \<Rightarrow> out list" where
  "writeConsole_ex pv t =
     (if xkind t = strDebug_ex then [ColorSet FgHiMagenta]
      else if xkind t = strWarning_ex then [ColorSet FgHiYellow]
      else if xkind t = strInfo_ex then [ColorSet FgHiCyan]
      else if xkind t = strError_ex then [ColorSet FgHiRed]
      else [])
     @ [Text (''['' @ xkind t @ ''] '' @ file_name (xcall t) @ '':''
              @ showNat (line (xcall t)) @ '' '' @ function_name (xcall t) @ '': ''
              @ writeFields_ex pv t '' '' @ newline),
        ColorUnset]"

definition writeLog_ex :: "(gval \<Rightarrow> string) \<Rightarrow> xtrace \<Rightarrow> xlog \<Rightarrow> xlog" where
  "writeLog_ex pv t s =
     (let s1 = (if console_ex s \<or> xkind t = strDebug_ex
                then s\<lparr>stdout_ex := stdout_ex s @ writeConsole_ex pv t\<rparr> else s)
      in if file_ex s1 = FileOpen then s1\<lparr>diskText := diskText s1 @ writeFile_ex pv t\<rparr>
         else s1)"

definition StartLog_ex ::
  "string \<Rightarrow> bool \<Rightarrow> goerror option \<Rightarrow> xlog \<Rightarrow> goerror option \<times> xlog" where
  "StartLog_ex name cons openErr s =
     (if chTrace_ex s \<noteq> None then (None, s)
      else if name \<noteq> [] \<and> openErr \<noteq> None then (openErr, s\<lparr>file_ex := NoFile\<rparr>)
      else (None,
            (if name \<noteq> [] then s\<lparr>file_ex := FileOpen, diskText := []\<rparr> else s)
              \<lparr>chTrace_ex := Some ([], False), chExit := True, console_ex := cons,
               routine := True\<rparr>))"

text \<open>
  \<^verbatim>\<open>logRoutine\<close> selects between an event and the exit signal. When both are ready the
  choice is free: \<open>takeTraces k\<close> is the routine taking the event case \<open>k\<close> times, as
  long as there is an event.
\<close>

fun takeTraces :: "(gval \<Rightarrow> string) \<Rightarrow> nat \<Rightarrow> xlog \<Rightarrow> xlog" where
  "takeTraces pv 0 s = s"
| "takeTraces pv (Suc k) s =
     (case chTrace_ex s of
        Some (t # q, c) \<Rightarrow> takeTraces pv k (writeLog_ex pv t (s\<lparr>chTrace_ex := Some (q, c)\<rparr>))
      | _ \<Rightarrow> s)"

text \<open>The loop of \<^verbatim>\<open>CloseLog\<close>: while \<^verbatim>\<open>len(_chTrace) > 0\<close>, receive an event and write it.\<close>

function drain :: "(gval \<Rightarrow> string) \<Rightarrow> xlog \<Rightarrow> xlog" where
  "drain pv s =
     (case chTrace_ex s of
        Some (t # q, c) \<Rightarrow> drain pv (writeLog_ex pv t (s\<lparr>chTrace_ex := Some (q, c)\<rparr>))
      | _ \<Rightarrow> s)"
  by pat_completeness auto

termination
  by (relation "measure (\<lambda>(pv, s). case chTrace_ex s of Some (q, c) \<Rightarrow> length q | None \<Rightarrow> 0)")
     (auto simp: writeLog_ex_def Let_def)

declare drain.simps [simp del]

text \<open>
  \<^verbatim>\<open>CloseLog\<close>. The send on the unbuffered \<^verbatim>\<open>_chExit\<close> returns when the routine takes the
  signal, after \<open>k\<close> events of its own choice; with no routine to take it the call
  never returns (\<open>None\<close>). Then the caller writes what is left in the queue, closes
  the queue, closes the file and drops \<^verbatim>\<open>_chExit\<close>.
\<close>

definition CloseLog_ex :: "(gval \<Rightarrow> string) \<Rightarrow> nat \<Rightarrow> xlog \<Rightarrow> xlog option" where
  "CloseLog_ex pv k s =
     (if chExit s then
        (if routine s then
           (let s1 = (takeTraces pv k s)\<lparr>routine := False\<rparr>;
                s2 = (if chTrace_ex s1 \<noteq> None
                      then (drain pv s1)
                             \<lparr>chTrace_ex := map_option (\<lambda>(q, c). (q, True))
                                               (chTrace_ex (drain pv s1))\<rparr>
                      else s1);
                s3 = (if file_ex s2 \<noteq> NoFile
                      then s2\<lparr>file_ex := FileClosed, closes := closes s2 + 1\<rparr> else s2)
            in Some (s3\<lparr>chExit := False\<rparr>))
         else None)
      else Some s)"

section \<open>Sample inputs\<close>

definition sampleEnv :: env where
  "sampleEnv =
     \<lparr>now = \<lparr>Month = 3, Day = 7, Year = 2021, Hour = 9, Minute = 5, Second = 0\<rparr>,
      callsite = \<lparr>line = 12, function_name = ''main'', file_name = ''main.go''\<rparr>,
      stackText = ''goroutine 1 [running]'', pid = 77\<rparr>"

text \<open>A stand-in for \<^verbatim>\<open>sliceAsString\<close> and for \<^verbatim>\<open>%+v\<close>, where a closed term needs one.\<close>

definition sampleSas :: "gval list \<Rightarrow> string" where
  "sampleSas vs = concat (map (\<lambda>v. writeField (\<lambda>u. ''?'') v '' '') vs)"

definition samplePv :: "gval \<Rightarrow> string" where
  "samplePv v = ''?''"

text \<open>The record of the spec's example, with \<^verbatim>\<open>Count\<close> tagged \<^verbatim>\<open>log:"hide"\<close>.\<close>

definition sampleRecord :: gval where
  "sampleRecord =
     Struct ''rec'' None
       [Field ''Name'' True None (GoString ''a b''),
        Field ''Count'' True (Some ''hide'') (GoInt 3)]"

text \<open>The logger of log.go after a start with a log file and the console on.\<close>

definition startedLog :: alog where
  "startedLog = snd (StartLog ''app.log'' ''1.0'' True False None initLog)"

text \<open>The same logger with one event in the queue that the routine has not taken yet.\<close>

definition queuedLog :: alog where
  "queuedLog =
     (case Info sampleEnv [GoString ''x''] startedLog of
        Returns u s \<Rightarrow> s
      | BlocksForever \<Rightarrow> startedLog
      | BlocksUntilRoom \<Rightarrow> startedLog
      | Panics m s \<Rightarrow> s)"


text \<open>The logger with an exit channel after a start with a log file.\<close>

definition startedLog_ex :: xlog where
  "startedLog_ex = snd (StartLog_ex ''app.log'' False None initLog_ex)"

declare writeField.simps [simp del] writeUnknownField.simps [simp del]
declare writeField_ex.simps [simp del] writeUnknownField_ex.simps [simp del]

section \<open>Shutdown of the queued logger\<close>

lemma CloseLog_writes_nothing:
  "fileText (CloseLog s) = fileText s \<and> stdout (CloseLog s) = stdout s
   \<and> onLogCalls (CloseLog s) = onLogCalls s"
  by (simp add: CloseLog_def Let_def)

lemma CloseLog_closed:
  "chTrace (CloseLog s) = None \<and> \<not> logfile (CloseLog s)"
  by (cases "chTrace s") (auto simp: CloseLog_def Let_def)

lemma startedLog_eq:
  "startedLog =
     \<lparr>build = ''1.0'', chTrace = Some ([], False), logfile = True, onLog = False,
      consoleOn = True, fileText = [], fileCloses = 0, stdout = [], onLogCalls = []\<rparr>"
  by (simp add: startedLog_def StartLog_def openLogFile_def initLog_def)

lemma queuedLog_eq:
  "queuedLog =
     startedLog\<lparr>chTrace :=
       Some ([\<lparr>Kind = strInfo, Build = ''1.0'', Data = [GoString ''x''], Stack = [],
               Time = now sampleEnv, Caller = callsite sampleEnv, Error = None\<rparr>], False)\<rparr>"
  by (simp add: queuedLog_def Info_def send_def startedLog_eq)

text \<open>
  Claim C1 says that every event enqueued before \<^verbatim>\<open>CloseLog\<close> is in the log file, in
  order, before the file is closed and the call returns. In log.go it is not so:
  with the log file open and one event in the queue that the routine has not taken,
  \<^verbatim>\<open>CloseLog\<close> returns with the file closed once and empty, and the routine gets no
  event afterwards. From every state, \<^verbatim>\<open>CloseLog\<close> adds nothing to the file and leaves
  nothing for the routine.
\<close>

theorem CloseLog_drops_queued_event:
  "map_option (map Data \<circ> fst) (chTrace queuedLog) = Some [[GoString ''x'']]
   \<and> logfile queuedLog
   \<and> fileText (CloseLog queuedLog) = []
   \<and> \<not> logfile (CloseLog queuedLog)
   \<and> fileCloses (CloseLog queuedLog) = 1
   \<and> logRoutine_step sas p (CloseLog queuedLog) = None
   \<and> fileText (CloseLog s) = fileText s
   \<and> logRoutine_step sas p (CloseLog s) = None"
proof -
  have none: "logRoutine_step sas p (CloseLog s') = None" for s'
    by (simp add: logRoutine_step_def CloseLog_closed)
  have "fileText (CloseLog queuedLog) = []"
    by (simp add: CloseLog_writes_nothing queuedLog_eq startedLog_eq)
  moreover have "fileCloses (CloseLog queuedLog) = 1"
    by (simp add: CloseLog_def queuedLog_eq startedLog_eq)
  moreover have "map_option (map Data \<circ> fst) (chTrace queuedLog) = Some [[GoString ''x'']]"
    by (simp add: queuedLog_eq)
  moreover have "logfile queuedLog"
    by (simp add: queuedLog_eq startedLog_eq)
  ultimately show ?thesis
    by (simp add: none CloseLog_closed CloseLog_writes_nothing)
qed

text \<open>
  The shutdown of the file with an exit channel does what log.go misses: whatever
  the routine has taken before the signal, the caller writes the rest, and the file
  holds all queued events in their order when it is closed.
\<close>

lemma writeLog_ex_fields:
  "chTrace_ex (writeLog_ex pv t s) = chTrace_ex s"
  "file_ex (writeLog_ex pv t s) = file_ex s"
  "chExit (writeLog_ex pv t s) = chExit s"
  "routine (writeLog_ex pv t s) = routine s"
  "closes (writeLog_ex pv t s) = closes s"
  "diskText (writeLog_ex pv t s)
     = (if file_ex s = FileOpen then diskText s @ writeFile_ex pv t else diskText s)"
  by (simp_all add: writeLog_ex_def Let_def)

lemma takeTraces_open:
  "chTrace_ex s = Some (q, c) \<Longrightarrow> file_ex s = FileOpen \<Longrightarrow>
   chTrace_ex (takeTraces pv k s) = Some (drop k q, c)
   \<and> file_ex (takeTraces pv k s) = FileOpen
   \<and> closes (takeTraces pv k s) = closes s
   \<and> diskText (takeTraces pv k s) = diskText s @ concat (map (writeFile_ex pv) (take k q))"
proof (induction k arbitrary: s q)
  case 0
  then show ?case by simp
next
  case (Suc k)
  show ?case
  proof (cases q)
    case Nil
    with Suc.prems show ?thesis by simp
  next
    case (Cons t q')
    let ?s = "writeLog_ex pv t (s\<lparr>chTrace_ex := Some (q', c)\<rparr>)"
    have "chTrace_ex ?s = Some (q', c)" and "file_ex ?s = FileOpen"
      using Suc.prems by (simp_all add: writeLog_ex_fields)
    from Suc.IH [OF this]
    show ?thesis using Suc.prems Cons by (simp add: writeLog_ex_fields)
  qed
qed

lemma drain_open:
  "chTrace_ex s = Some (q, c) \<Longrightarrow> file_ex s = FileOpen \<Longrightarrow>
   chTrace_ex (drain pv s) = Some ([], c)
   \<and> file_ex (drain pv s) = FileOpen
   \<and> closes (drain pv s) = closes s
   \<and> diskText (drain pv s) = diskText s @ concat (map (writeFile_ex pv) q)"
proof (induction q arbitrary: s)
  case Nil
  then show ?case by (simp add: drain.simps)
next
  case (Cons t q')
  let ?s = "writeLog_ex pv t (s\<lparr>chTrace_ex := Some (q', c)\<rparr>)"
  have "chTrace_ex ?s = Some (q', c)" and "file_ex ?s = FileOpen"
    using Cons.prems by (simp_all add: writeLog_ex_fields)
  from Cons.IH [OF this]
  show ?case using Cons.prems by (simp add: drain.simps [of pv s] writeLog_ex_fields)
qed

lemma CloseLog_ex_drains:
  assumes "chExit s" "routine s" "chTrace_ex s = Some (q, False)" "file_ex s = FileOpen"
  shows "\<exists>s'. CloseLog_ex pv k s = Some s'
     \<and> diskText s' = diskText s @ concat (map (writeFile_ex pv) q)
     \<and> file_ex s' = FileClosed \<and> closes s' = closes s + 1
     \<and> chTrace_ex s' = Some ([], True) \<and> \<not> chExit s'"
proof -
  let ?s1 = "(takeTraces pv k s)\<lparr>routine := False\<rparr>"
  from takeTraces_open [OF assms(3,4), of pv k]
  have t: "chTrace_ex ?s1 = Some (drop k q, False)" "file_ex ?s1 = FileOpen"
    "closes ?s1 = closes s"
    "diskText ?s1 = diskText s @ concat (map (writeFile_ex pv) (take k q))"
    by simp_all
  from drain_open [OF t(1,2), of pv]
  have d: "chTrace_ex (drain pv ?s1) = Some ([], False)" "file_ex (drain pv ?s1) = FileOpen"
    "closes (drain pv ?s1) = closes s"
    "diskText (drain pv ?s1)
       = diskText s @ concat (map (writeFile_ex pv) (take k q))
         @ concat (map (writeFile_ex pv) (drop k q))"
    using t by simp_all
  have "concat (map (writeFile_ex pv) (take k q)) @ concat (map (writeFile_ex pv) (drop k q))
        = concat (map (writeFile_ex pv) q)"
    by (metis append_take_drop_id concat_append map_append)
  with d t assms show ?thesis
    by (auto simp: CloseLog_ex_def Let_def)
qed

section \<open>Logging without a channel\<close>

lemma send_nil: "chTrace s = None \<Longrightarrow> send t s = BlocksForever"
  by (simp add: send_def)

lemma send_room:
  "chTrace s = Some (q, False) \<Longrightarrow> length q < 100 \<Longrightarrow>
   send t s = Returns () (s\<lparr>chTrace := Some (q @ [t], False)\<rparr>)"
  by (simp add: send_def)

lemma failed_start:
  "StartLog ''/foobar/test.log'' b c cb (Some oerr) initLog
     = (Some oerr, initLog\<lparr>logfile := False\<rparr>)"
  by (simp add: StartLog_def openLogFile_def initLog_def)

text \<open>
  Claim C2 says that \<^verbatim>\<open>Check\<close>, \<^verbatim>\<open>Fail\<close>, \<^verbatim>\<open>Warning\<close>, \<^verbatim>\<open>Info\<close> and \<^verbatim>\<open>Debug\<close> return
  normally when the logger was never started, when its start failed, and after
  \<^verbatim>\<open>CloseLog\<close>. In log.go \<^verbatim>\<open>_chTrace\<close> is nil in all three states and every entry point
  that has an event to send sends it on the nil channel: the call blocks for ever.
\<close>

theorem logging_on_nil_channel_blocks:
  "Info e a (CloseLog s) = BlocksForever
   \<and> Warning e a (CloseLog s) = BlocksForever
   \<and> Debug e a (CloseLog s) = BlocksForever
   \<and> Check e (Some err) a (CloseLog s) = BlocksForever
   \<and> Fail e (Some err) a (CloseLog s) = BlocksForever
   \<and> Info e a initLog = BlocksForever
   \<and> Check e (Some err) a initLog = BlocksForever
   \<and> fst (StartLog ''/foobar/test.log'' b c cb (Some oerr) initLog) = Some oerr
   \<and> Info e a (snd (StartLog ''/foobar/test.log'' b c cb (Some oerr) initLog)) = BlocksForever"
proof -
  have closed: "chTrace (CloseLog s) = None"
    by (simp add: CloseLog_closed)
  have init: "chTrace initLog = None"
    by (simp add: initLog_def)
  have failed: "chTrace (initLog\<lparr>logfile := False\<rparr>) = None"
    by (simp add: initLog_def)
  show ?thesis
    by (simp add: Info_def Warning_def Debug_def Check_def Fail_def andReturn_def
          send_nil [OF closed] send_nil [OF init] send_nil [OF failed] failed_start)
qed

section \<open>Assert\<close>

text \<open>
  Claim C3 says that a failing \<^verbatim>\<open>Assert\<close> writes its event to the console and the log
  file, and that the events queued before it are in the file before it is closed. In
  log.go the event is built and handed to \<^verbatim>\<open>panic\<close>, and written nowhere: on a started
  logger with the log file open, the console on and nothing queued, the call ends
  with nothing in the file and nothing on the console. With one event queued it ends
  the same way, the queued event lost as well.
\<close>

theorem Assert_writes_no_event:
  "logfile startedLog \<and> consoleOn startedLog
   \<and> chTrace startedLog = Some ([], False)
   \<and> Assert sampleSas sampleEnv False [GoString ''boom''] startedLog
       = Panics (asString sampleSas 77 (assertEvent sampleEnv [GoString ''boom'']))
           (CloseLog startedLog)
   \<and> fileText (CloseLog startedLog) = []
   \<and> stdout (CloseLog startedLog) = []
   \<and> logRoutine sampleSas 77 (CloseLog startedLog) = CloseLog startedLog
   \<and> map_option (map Data \<circ> fst) (chTrace queuedLog) = Some [[GoString ''x'']]
   \<and> Assert sampleSas sampleEnv False [GoString ''boom''] queuedLog
       = Panics (asString sampleSas 77 (assertEvent sampleEnv [GoString ''boom'']))
           (CloseLog queuedLog)
   \<and> fileText (CloseLog queuedLog) = []
   \<and> stdout (CloseLog queuedLog) = []"
proof -
  have "logRoutine_step sampleSas 77 (CloseLog startedLog) = None"
    by (simp add: logRoutine_step_def CloseLog_closed)
  then have "logRoutine sampleSas 77 (CloseLog startedLog) = CloseLog startedLog"
    by (simp add: logRoutine.simps [of _ _ "CloseLog startedLog"])
  then show ?thesis
    by (simp add: Assert_def CloseLog_writes_nothing queuedLog_eq startedLog_eq sampleEnv_def)
qed

section \<open>Check and Fail\<close>






text \<open>
  Claim C5: \<^verbatim>\<open>Fail\<close> returns the error it is given, nil or not, and enqueues an event
  of kind error exactly when the error is not nil. With a nil error it returns at
  once and the state is the same, in every state. Whenever it returns, the value is
  its argument. For a started logger whose queue has room, the states in which a
  send returns, an error that is not nil comes back with exactly one event of kind
  error added to the queue.
\<close>

theorem Fail_passes_error_through:
  "Fail e None a s = Returns None s
   \<and> (Fail e err a s = Returns r s' \<longrightarrow> r = err)
   \<and> (chTrace s = Some (q, False) \<and> length q < 100 \<longrightarrow>
        Fail e (Some x) a s
          = Returns (Some x) (s\<lparr>chTrace := Some (q @ [errorEvent e (Some x) a s], False)\<rparr>)
        \<and> Kind (errorEvent e (Some x) a s) = strError
        \<and> Error (errorEvent e (Some x) a s) = Some x)"
proof (intro conjI impI)
  show "Fail e None a s = Returns None s"
    by (simp add: Fail_def)
next
  assume "Fail e err a s = Returns r s'"
  then show "r = err"
    by (cases "send (errorEvent e err a s) s")
       (auto simp: Fail_def andReturn_def split: if_splits)
next
  assume "chTrace s = Some (q, False) \<and> length q < 100"
  then have "send (errorEvent e (Some x) a s) s
      = Returns () (s\<lparr>chTrace := Some (q @ [errorEvent e (Some x) a s], False)\<rparr>)"
    by (simp add: send_room)
  then show "Fail e (Some x) a s
      = Returns (Some x) (s\<lparr>chTrace := Some (q @ [errorEvent e (Some x) a s], False)\<rparr>)"
    by (simp add: Fail_def andReturn_def)
next
  show "Kind (errorEvent e (Some x) a s) = strError"
    by (simp add: errorEvent_def)
next
  show "Error (errorEvent e (Some x) a s) = Some x"
    by (simp add: errorEvent_def)
qed

theorem Fail_passes_error_through_witness:
  "chTrace startedLog = Some ([], False)
   \<and> Fail sampleEnv None [] startedLog = Returns None startedLog
   \<and> Fail sampleEnv (Some (GoError ''disk full'')) [] startedLog
       = Returns (Some (GoError ''disk full''))
           (startedLog\<lparr>chTrace :=
              Some ([errorEvent sampleEnv (Some (GoError ''disk full'')) [] startedLog],
                    False)\<rparr>)"
proof -
  have h: "chTrace startedLog = Some ([], False)"
    by (simp add: startedLog_eq)
  show ?thesis
    using h Fail_passes_error_through [where s = startedLog and q = "[]" and e = sampleEnv
        and a = "[]" and x = "GoError ''disk full''" and err = None and r = None
        and s' = startedLog]
    by simp
qed

section \<open>A second CloseLog\<close>

lemma CloseLog_ex_again:
  assumes "CloseLog_ex pv k x = Some x'"
  shows "CloseLog_ex pv k' x' = Some x'"
proof -
  have "\<not> chExit x'"
    using assms by (auto simp: CloseLog_ex_def Let_def split: if_splits)
  then show ?thesis
    by (simp add: CloseLog_ex_def)
qed

lemma startedLog_ex_eq:
  "startedLog_ex =
     \<lparr>chTrace_ex = Some ([], False), chExit = True, file_ex = FileOpen, console_ex = False,
      routine = True, diskText = [], closes = 0, stdout_ex = []\<rparr>"
  by (simp add: startedLog_ex_def StartLog_ex_def initLog_ex_def)

text \<open>
  Claim C6: a second \<^verbatim>\<open>CloseLog\<close> after a completed one is a no-op. It has no panic to
  run into, it does not call \<^verbatim>\<open>Close()\<close> on the file again, and it leaves the state as
  the first call left it. This holds from every state of log.go, and in the file
  with an exit channel for every first call that returned.
\<close>

theorem CloseLog_twice_is_noop:
  "CloseLog (CloseLog s) = CloseLog s
   \<and> fileCloses (CloseLog (CloseLog s)) = fileCloses (CloseLog s)
   \<and> (CloseLog_ex pv k x = Some x' \<longrightarrow> CloseLog_ex pv k' x' = Some x')"
proof -
  have "CloseLog (CloseLog s) = CloseLog s"
    by (cases "chTrace s") (auto simp: CloseLog_def Let_def)
  then show ?thesis
    by (simp add: CloseLog_ex_again)
qed

theorem CloseLog_twice_is_noop_witness:
  "CloseLog (CloseLog queuedLog) = CloseLog queuedLog
   \<and> fileCloses (CloseLog queuedLog) = 1
   \<and> CloseLog_ex samplePv 0 startedLog_ex
       = Some \<lparr>chTrace_ex = Some ([], True), chExit = False, file_ex = FileClosed,
               console_ex = False, routine = False, diskText = [], closes = 1,
               stdout_ex = []\<rparr>
   \<and> CloseLog_ex samplePv 0
        \<lparr>chTrace_ex = Some ([], True), chExit = False, file_ex = FileClosed,
         console_ex = False, routine = False, diskText = [], closes = 1, stdout_ex = []\<rparr>
       = Some \<lparr>chTrace_ex = Some ([], True), chExit = False, file_ex = FileClosed,
               console_ex = False, routine = False, diskText = [], closes = 1,
               stdout_ex = []\<rparr>"
proof -
  have first: "CloseLog_ex samplePv 0 startedLog_ex
       = Some \<lparr>chTrace_ex = Some ([], True), chExit = False, file_ex = FileClosed,
               console_ex = False, routine = False, diskText = [], closes = 1,
               stdout_ex = []\<rparr>"
    by (auto simp: CloseLog_ex_def startedLog_ex_eq drain.simps Let_def)
  have closes: "fileCloses (CloseLog queuedLog) = 1"
    by (simp add: CloseLog_def queuedLog_eq startedLog_eq)
  show ?thesis
    using first closes
      CloseLog_twice_is_noop [where s = queuedLog and pv = samplePv and k = 0 and k' = 0
        and x = startedLog_ex]
    by simp
qed

section \<open>The renderer\<close>

text \<open>
  Claim C7 says that a duration is written as its whole milliseconds followed by
  \<^verbatim>\<open>ms\<close>. \<^verbatim>\<open>writeField\<close> of \<^verbatim>\<open>unnamed/part_002\<close>, line 275, takes
  \<^verbatim>\<open>Microseconds()\<close>: a duration of 1500000 nanoseconds, one millisecond and a half, is
  written \<^verbatim>\<open>1500ms\<close>. The same case at line 717 takes \<^verbatim>\<open>Milliseconds()\<close> and writes \<^verbatim>\<open>1ms\<close>.
\<close>

theorem duration_written_in_microseconds:
  "writeField pv (Duration 1500000) delim = ''1500ms''
   \<and> Milliseconds 1500000 = 1
   \<and> writeField_ex pv (Duration 1500000) delim = ''1ms''"
  by (simp add: writeField.simps writeField_ex.simps Microseconds_def Milliseconds_def
        showInt_def showNat.simps digit_def signed_divide_int_def)

lemma writeField_ex_duration:
  "writeField_ex pv (Duration d) delim = showInt (Milliseconds d) @ ''ms''"
  by (simp add: writeField_ex.simps)

text \<open>
  Claim C8 says that a field tagged \<^verbatim>\<open>hide\<close> is left out and that the fields that
  remain are joined by the delimiter with none at the end, so that the record
  \<^verbatim>\<open>{Name: "a b", Count: 3}\<close> with \<^verbatim>\<open>Count\<close> hidden is written \<^verbatim>\<open>Name:'a b'\<close>. The field is
  left out, but \<^verbatim>\<open>Name\<close> is not the last field of the struct and the delimiter follows
  it: behind a pointer the record is written \<^verbatim>\<open>Name:'a b'\<close> and a tab (or a space on
  the console).
\<close>

theorem hidden_last_field_leaves_delimiter:
  "writeField pv (Ptr None sampleRecord) tab = ''Name:'' @ sq @ ''a b'' @ sq @ tab
   \<and> writeUnknownField pv (Ptr None sampleRecord) '' '' = ''Name:'' @ sq @ ''a b'' @ sq @ '' ''
   \<and> writeField pv (Ptr None sampleRecord) tab \<noteq> ''Name:'' @ sq @ ''a b'' @ sq"
  by (simp add: writeField.simps writeUnknownField.simps sampleRecord_def)







section \<open>Trace\<close>

lemma getStructName_unknown:
  "\<not> structAfterDeref v \<Longrightarrow> getStructName v = ''<unknown>''"
  by (cases v rule: structAfterDeref.cases) (simp_all add: getStructName_def)

lemma getStructName_struct:
  "getStructName (Struct n e fs) = n" "getStructName (Ptr e' (Struct n e fs)) = n"
  by (simp_all add: getStructName_def)

lemma writeFile_prefix: "prefix (''['' @ kind t @ '']'' @ tab) (writeFile pv t)"
  by (simp add: writeFile_def prefix_def split: prod.splits)

lemma writeLog_disk:
  "disk (writeLog pv t s) = (if file_open s then disk s @ writeFile pv t else disk s)"
  by (simp add: writeLog_def Let_def)

text \<open>
  Claim C10: when the first value handed to \<^verbatim>\<open>Trace\<close> is nil, a nil pointer, or no
  struct after one pointer is followed, the kind of the event is the text
  \<^verbatim>\<open><unknown>\<close>. \<^verbatim>\<open>Trace\<close> then returns, having passed this event to \<^verbatim>\<open>writeLog\<close>, and the
  line for the log file starts with \<^verbatim>\<open>[<unknown>]\<close>.
\<close>

theorem Trace_kind_unknown:
  assumes "a \<noteq> []"
    and "a ! 0 = Nil \<or> a ! 0 = NilPtr \<or> \<not> structAfterDeref (a ! 0)"
  shows "kind (traceEvent e a) = ''<unknown>''
   \<and> Trace pv e a s = Inr (writeLog pv (traceEvent e a) s)
   \<and> prefix (''[<unknown>]'' @ tab) (writeFile pv (traceEvent e a))
   \<and> disk (writeLog pv (traceEvent e a) s)
       = (if file_open s then disk s @ writeFile pv (traceEvent e a) else disk s)"
proof -
  from assms(2) have "\<not> structAfterDeref (a ! 0)"
    by auto
  then have k: "kind (traceEvent e a) = ''<unknown>''"
    by (simp add: traceEvent_def getStructName_unknown)
  have "prefix (''['' @ kind (traceEvent e a) @ '']'' @ tab) (writeFile pv (traceEvent e a))"
    by (rule writeFile_prefix)
  with k have "prefix (''[<unknown>]'' @ tab) (writeFile pv (traceEvent e a))"
    by simp
  with k assms(1) show ?thesis
    by (simp add: Trace_def writeLog_disk)
qed

theorem Trace_kind_unknown_witness:
  "kind (traceEvent sampleEnv [GoInt 3]) = ''<unknown>''
   \<and> kind (traceEvent sampleEnv [Nil, GoString ''x'']) = ''<unknown>''
   \<and> kind (traceEvent sampleEnv [Ptr None (GoString ''x'')]) = ''<unknown>''
   \<and> kind (traceEvent sampleEnv [Ptr None sampleRecord]) = ''rec''"
proof -
  have "\<not> structAfterDeref ([GoInt 3] ! 0)"
    and "[Nil, GoString ''x''] ! 0 = Nil"
    and "\<not> structAfterDeref ([Ptr None (GoString ''x'')] ! 0)"
    by simp_all
  then show ?thesis
    using Trace_kind_unknown [of "[GoInt 3]" sampleEnv]
      Trace_kind_unknown [of "[Nil, GoString ''x'']" sampleEnv]
      Trace_kind_unknown [of "[Ptr None (GoString ''x'')]" sampleEnv]
    by (simp add: traceEvent_def getStructName_struct sampleRecord_def)
qed

end
